theory Spec2Isabelle
  imports
    Main
    "HOL-Library.Sublist"
    "HOL-Library.Char_ord"
    "HOL-Library.List_Lexorder"
    "HOL-Library.Product_Lexorder"
begin

section \<open>Typed values: collecting addresses from a struct\<close>

text \<open>
  The value classes come from the package \<^verbatim>\<open>aleo_types\<close>. A literal carries its type tag
  and a primitive; a plaintext is a literal, a struct (a list of named members) or an
  array. The primitive is kept abstract (type \<open>'p\<close>); its rendering \<^verbatim>\<open>str(primitive)\<close>
  is the parameter \<open>str\<close> of the functions below.
\<close>

datatype literal_type =
  Address | Boolean | Field | Group
  | I8 | I16 | I32 | I64 | I128
  | U8 | U16 | U32 | U64 | U128
  | Scalar | Signature | String

datatype 'p literal = Literal (type: literal_type) (primitive: 'p)

datatype 'p plaintext =
  LiteralPlaintext (literal: "'p literal")
  | StructPlaintext (members: "(string \<times> 'p plaintext) list")
  | ArrayPlaintext (elements: "'p plaintext list")

text \<open>
  \<^verbatim>\<open>get_addresses_from_struct\<close>: the loop over \<^verbatim>\<open>plaintext.members\<close> with the set
  \<^verbatim>\<open>addresses\<close> as its accumulator. The argument is the member list of the struct.
\<close>

fun collect_addresses ::
  "('p \<Rightarrow> string) \<Rightarrow> (string \<times> 'p plaintext) list \<Rightarrow> string set \<Rightarrow> string set" where
  "collect_addresses str [] addresses = addresses"
| "collect_addresses str ((n, p) # ms) addresses =
     collect_addresses str ms
       (case p of
          LiteralPlaintext l \<Rightarrow>
            (if type l = Address then insert (str (primitive l)) addresses else addresses)
        | StructPlaintext ms' \<Rightarrow> addresses \<union> collect_addresses str ms' {}
        | ArrayPlaintext _ \<Rightarrow> addresses)"

definition get_addresses_from_struct ::
  "('p \<Rightarrow> string) \<Rightarrow> (string \<times> 'p plaintext) list \<Rightarrow> string set" where
  "get_addresses_from_struct str ms = collect_addresses str ms {}"

text \<open>
  The addresses of a struct in the words of the specification: the rendering of each
  member that is a literal of type Address, and the addresses of each member that is
  itself a struct.
\<close>

inductive address_member ::
  "('p \<Rightarrow> string) \<Rightarrow> (string \<times> 'p plaintext) list \<Rightarrow> string \<Rightarrow> bool" where
  direct: "(n, LiteralPlaintext l) \<in> set ms \<Longrightarrow> type l = Address
             \<Longrightarrow> address_member str ms (str (primitive l))"
| nested: "(n, StructPlaintext ms') \<in> set ms \<Longrightarrow> address_member str ms' a
             \<Longrightarrow> address_member str ms a"


section \<open>Errors and collaborators outside the repository\<close>

text \<open>
  The revert raises \<^verbatim>\<open>RuntimeError\<close> with a message; \<^verbatim>\<open>int()\<close> raises
  \<^verbatim>\<open>ValueError\<close> on a string that is no integer. The names of the specification's
  error kinds stand for the messages of the source. \<open>ConnectionError\<close> stands for what
  the relational client or the cache client raises when a call to it fails.
  \<^verbatim>\<open>asyncio.CancelledError\<close> can be raised at any \<^verbatim>\<open>await\<close>; it derives from
  \<^verbatim>\<open>BaseException\<close> and not from \<^verbatim>\<open>Exception\<close>, so \<^verbatim>\<open>except Exception\<close> lets it pass.
\<close>

datatype error = RuntimeError string | ValueError string | ConnectionError string | CancelledError

fun is_exception :: "error \<Rightarrow> bool" where
  "is_exception CancelledError = False"
| "is_exception _ = True"

definition UnsupportedCatalog :: error where
  "UnsupportedCatalog = RuntimeError ''unsupported configuration''"

definition NoCheckpointFound :: error where
  "NoCheckpointFound = RuntimeError ''no backup found''"

definition IncompleteCheckpoint :: "string \<Rightarrow> error" where
  "IncompleteCheckpoint key = RuntimeError (''backup key not found: '' @ key)"

definition MissingTransactionRecord :: "string \<Rightarrow> error" where
  "MissingTransactionRecord tid = RuntimeError (''missing transaction: '' @ tid)"

definition InvalidRejectedPayload :: error where
  "InvalidRejectedPayload = RuntimeError ''wrong transaction data''"

definition InvalidTransactionShape :: error where
  "InvalidTransactionShape = RuntimeError ''wrong transaction type''"

text \<open>
  Functions the source calls and does not define are parameters of the model:
  Python's \<^verbatim>\<open>int\<close> on a string (\<open>None\<close> where it raises \<^verbatim>\<open>ValueError\<close>), the
  rendering of an integer inside an f-string, and \<^verbatim>\<open>get_value_id\<close> of
  \<^verbatim>\<open>aleo_explorer_rust\<close>.
\<close>

text \<open>
  A call to the outside can fail. The places where the revert calls out: entering the
  three \<^verbatim>\<open>async with\<close> blocks (lines 49 to 51), the reads of the cache store that locate
  the backup (a failure there is placed at the first of them, line 61), each statement
  sent to the relational store (numbered from 0 in the order of the run), each call to
  the cache client during the restore (numbered from 0 likewise), the commit on leaving
  the block of line 50, and \<^verbatim>\<open>message_callback\<close> (line 201). \<open>fault env s = Some x\<close> says
  that the call at \<open>s\<close> raises \<open>x\<close> instead of doing its work.
\<close>

datatype site =
  PoolConnection
  | ConnTransaction
  | ConnCursor
  | LocatorRead
  | Statement nat
  | CacheCall nat
  | Commit
  | MessageCallback

record env =
  py_int :: "string \<Rightarrow> int option"
  py_str :: "int \<Rightarrow> string"
  get_value_id :: "string \<Rightarrow> string \<Rightarrow> string"
  fault :: "site \<Rightarrow> error option"

definition first_fault :: "(nat \<Rightarrow> error option) \<Rightarrow> nat \<Rightarrow> (nat \<times> error) option" where
  "first_fault f n =
     (case find (\<lambda>i. f i \<noteq> None) [0..<n] of
        None \<Rightarrow> None
      | Some i \<Rightarrow> map_option (Pair i) (f i))"

definition u32_max :: int where
  "u32_max = 4294967295"

section \<open>The cache store\<close>

text \<open>
  Modelled from the spec: the cache client is outside the repository; the specification
  asks of it key enumeration by prefix with a completion cursor, key existence check,
  key copy-with-replace, key persist (clear expiry) and key delete. The store is a list
  of keys with their value and time to live, in the order in which an enumeration visits
  them. One enumeration call looks at \<open>count\<close> keys from the cursor on, returns those
  that match the pattern, and returns cursor 0 once it has reached the end of the store.
  Where an enumeration meets a key does not depend on when the key was written: a key
  that is new takes its place by the order of the keys.
\<close>

record entry =
  val :: string
  ttl :: "nat option"

type_synonym redis = "(string \<times> entry) list"

text \<open>Patterns: \<open>*\<close> matches any run of characters, \<open>?\<close> one character.\<close>

fun glob :: "string \<Rightarrow> string \<Rightarrow> bool" where
  "glob [] s = (s = [])"
| "glob (p # ps) [] = (p = CHR ''*'' \<and> glob ps [])"
| "glob (p # ps) (c # cs) =
     (if p = CHR ''*'' then glob ps (c # cs) \<or> glob (p # ps) cs
      else if p = CHR ''?'' then glob ps cs
      else p = c \<and> glob ps cs)"

definition redis_scan :: "nat \<Rightarrow> string \<Rightarrow> nat \<Rightarrow> redis \<Rightarrow> nat \<times> string list" where
  "redis_scan cursor pattern count r =
     (let next = cursor + count
      in (if length r \<le> next then 0 else next,
          filter (glob pattern) (map fst (take count (drop cursor r)))))"

definition redis_exists :: "string \<Rightarrow> redis \<Rightarrow> bool" where
  "redis_exists key r = (key \<in> fst ` set r)"

definition redis_set :: "string \<Rightarrow> entry \<Rightarrow> redis \<Rightarrow> redis" where
  "redis_set key e r =
     (if redis_exists key r
      then map (\<lambda>(k, e'). if k = key then (k, e) else (k, e')) r
      else takeWhile (\<lambda>(k, e'). k < key) r @ (key, e) # dropWhile (\<lambda>(k, e'). k < key) r)"

text \<open>\<^verbatim>\<open>copy(source, destination, replace=True)\<close>: nothing happens without the source.\<close>

definition redis_copy :: "string \<Rightarrow> string \<Rightarrow> redis \<Rightarrow> redis" where
  "redis_copy source destination r =
     (case map_of r source of
        None \<Rightarrow> r
      | Some e \<Rightarrow> redis_set destination e r)"

definition redis_persist :: "string \<Rightarrow> redis \<Rightarrow> redis" where
  "redis_persist key r =
     map (\<lambda>(k, e). if k = key then (k, e\<lparr>ttl := None\<rparr>) else (k, e)) r"

definition redis_delete :: "string \<Rightarrow> redis \<Rightarrow> redis" where
  "redis_delete key r = filter (\<lambda>(k, e). k \<noteq> key) r"

section \<open>Locating the last backup\<close>

definition redis_keys :: "string list" where
  "redis_keys =
     [''credits.aleo:bonded'',
      ''credits.aleo:committee'',
      ''address_stake_reward'',
      ''address_transfer_in'',
      ''address_transfer_out'',
      ''address_fee'']"

text \<open>\<^verbatim>\<open>x.split(":")[-1]\<close>: what follows the last colon.\<close>

definition last_segment :: "string \<Rightarrow> string" where
  "last_segment x = rev (takeWhile (\<lambda>c. c \<noteq> CHR '':'') (rev x))"

definition history_key :: "env \<Rightarrow> string \<Rightarrow> int \<Rightarrow> string" where
  "history_key env redis_key height = redis_key @ '':history:'' @ py_str env height"

text \<open>
  Lines 53 to 72 of \<^verbatim>\<open>revert_to_last_backup\<close>: the scan of the first family's
  snapshots, the two checks on its reply, the sort by height, and the check that every
  family has a snapshot at the height chosen. The result is \<^verbatim>\<open>last_backup_height\<close>.
\<close>

definition find_last_backup :: "env \<Rightarrow> redis \<Rightarrow> error + int" where
  "find_last_backup env r =
     (case redis_scan 0 (hd redis_keys @ '':history:*'') 100 r of
        (cursor, keys) \<Rightarrow>
          if cursor \<noteq> 0 then Inl (RuntimeError ''unsupported configuration'')
          else if keys = [] then Inl (RuntimeError ''no backup found'')
          else
            (case find (\<lambda>x. py_int env (last_segment x) = None) keys of
               Some x \<Rightarrow> Inl (ValueError (last_segment x))
             | None \<Rightarrow>
                 (let keys' = sort_key (\<lambda>x. the (py_int env (last_segment x))) keys;
                      last_backup = last keys';
                      last_backup_height = the (py_int env (last_segment last_backup))
                  in case find (\<lambda>redis_key.
                                  \<not> redis_exists (history_key env redis_key last_backup_height) r)
                            redis_keys of
                       Some redis_key \<Rightarrow>
                         Inl (RuntimeError (''backup key not found: ''
                                @ history_key env redis_key last_backup_height))
                     | None \<Rightarrow> Inr last_backup_height)))"


section \<open>Ledger data\<close>

text \<open>
  Modelled from the spec: the classes of blocks and transactions are declared in
  \<^verbatim>\<open>aleo_types\<close>, outside the repository. A confirmed transaction is one of
  Accepted, RejectedDeploy and RejectedExecute and wraps a transaction, which is one of
  Deploy, Execute and Fee; a transition references a program id and a function name. Only
  the fields the revert reads are kept, each identifier in its rendered form.
\<close>

record transition =
  ts_program_id :: string
  ts_function_name :: string

datatype fee = Fee (fee_transition: transition)

datatype execution = Execution (transitions: "transition list")

datatype deployment = Deployment (program_id_of: string)

datatype transaction =
  DeployTransaction string deployment fee
  | ExecuteTransaction string execution "fee option"
  | FeeTransaction string fee

fun transaction_id_of :: "transaction \<Rightarrow> string" where
  "transaction_id_of (DeployTransaction tid _ _) = tid"
| "transaction_id_of (ExecuteTransaction tid _ _) = tid"
| "transaction_id_of (FeeTransaction tid _) = tid"

datatype rejected = RejectedDeployment deployment | RejectedExecution execution

datatype confirmed_transaction =
  Accepted transaction
  | RejectedDeploy transaction rejected
  | RejectedExecute transaction rejected

fun ct_transaction :: "confirmed_transaction \<Rightarrow> transaction" where
  "ct_transaction (Accepted t) = t"
| "ct_transaction (RejectedDeploy t _) = t"
| "ct_transaction (RejectedExecute t _) = t"

section \<open>The relational store\<close>

text \<open>
  One record per table, with the columns the statements of the revert name; a table is
  the list of its rows. The database schema is not part of the repository, so no foreign
  key, cascade or uniqueness constraint is modelled. A block row carries its confirmed
  transactions, as the range reader returns them.
\<close>

record mapping_history_row =
  mh_id :: int
  mh_mapping_id :: int
  mh_key_id :: string
  mh_key :: string
  mh_value :: "string option"
  mh_height :: int

record mapping_value_row =
  mv_mapping_id :: int
  mv_key_id :: string
  mv_value_id :: string
  mv_key :: string
  mv_value :: string

record transaction_row =
  tx_transaction_id :: string
  tx_original_transaction_id :: "string option"
  tx_confimed_transaction_id :: "int option"
  tx_type :: string

record program_row =
  p_id :: int
  p_program_id :: string

record program_function_row =
  pf_program_id :: int
  pf_name :: string
  pf_called :: int

record mapping_row =
  m_id :: int
  m_program_id :: string

record leaderboard_row =
  lb_address :: string
  lb_total_reward :: int

record prover_solution_row =
  ps_coinbase_solution_id :: int
  ps_address :: string
  ps_reward :: int

record coinbase_solution_row =
  cs_id :: int
  cs_block_id :: int

record block =
  b_id :: int
  b_height :: int
  b_transactions :: "confirmed_transaction list"

record committee_history_row =
  ch_height :: int

record db =
  mapping_history :: "mapping_history_row list"
  mapping_value :: "mapping_value_row list"
  transaction_table :: "transaction_row list"
  program :: "program_row list"
  program_function :: "program_function_row list"
  mapping :: "mapping_row list"
  leaderboard :: "leaderboard_row list"
  prover_solution :: "prover_solution_row list"
  coinbase_solution :: "coinbase_solution_row list"
  block_table :: "block list"
  committee_history :: "committee_history_row list"

section \<open>Rebuilding the mapping values\<close>

text \<open>
  \<^verbatim>\<open>select distinct on (mapping_id, key_id) ... order by mapping_id, key_id, id desc\<close>:
  the rows are sorted and the first row of each run of equal \<open>(mapping_id, key_id)\<close>
  is kept.
\<close>

fun distinct_on :: "('a \<Rightarrow> 'k) \<Rightarrow> 'a list \<Rightarrow> 'a list" where
  "distinct_on g [] = []"
| "distinct_on g [x] = [x]"
| "distinct_on g (x # y # xs) =
     (if g x = g y then distinct_on g (x # xs) else x # distinct_on g (y # xs))"

definition select_mapping_snapshot :: "int \<Rightarrow> db \<Rightarrow> (int \<times> string \<times> string \<times> string option) list" where
  "select_mapping_snapshot height conn =
     map (\<lambda>r. (mh_mapping_id r, mh_key_id r, mh_key r, mh_value r))
       (distinct_on (\<lambda>r. (mh_mapping_id r, mh_key_id r))
          (sort_key (\<lambda>r. (mh_mapping_id r, mh_key_id r, - mh_id r))
             (filter (\<lambda>r. mh_height r \<le> height) (mapping_history conn))))"

definition insert_mapping_value ::
  "env \<Rightarrow> int \<times> string \<times> string \<times> string option \<Rightarrow> db \<Rightarrow> db" where
  "insert_mapping_value env item conn =
     (case item of
        (mapping_id, key_id, key, value) \<Rightarrow>
          (case value of
             None \<Rightarrow> conn
           | Some v \<Rightarrow>
               conn\<lparr>mapping_value := mapping_value conn @
                 [\<lparr>mv_mapping_id = mapping_id, mv_key_id = key_id,
                   mv_value_id = get_value_id env key_id v, mv_key = key, mv_value = v\<rparr>]\<rparr>))"

text \<open>Lines 74 to 99: snapshot, truncate, insert, delete the history above the height.\<close>

definition rebuild_mapping_value :: "env \<Rightarrow> int \<Rightarrow> db \<Rightarrow> db" where
  "rebuild_mapping_value env last_backup_height conn =
     (let mapping_snapshot = select_mapping_snapshot last_backup_height conn;
          conn1 = conn\<lparr>mapping_value := []\<rparr>;
          conn2 = fold (insert_mapping_value env) mapping_snapshot conn1
      in conn2\<lparr>mapping_history :=
           filter (\<lambda>r. \<not> mh_height r > last_backup_height) (mapping_history conn2)\<rparr>)"

section \<open>Rolling the ledger back\<close>

text \<open>
  Modelled from the spec: \<^verbatim>\<open>DatabaseBlock.get_full_block_range\<close> is outside the
  repository; the specification has the revert process every block with height above the
  checkpoint. The call passes \<^verbatim>\<open>u32.max\<close> as the upper end.
\<close>

definition get_full_block_range :: "int \<Rightarrow> int \<Rightarrow> db \<Rightarrow> block list" where
  "get_full_block_range start end' conn =
     filter (\<lambda>b. end' < b_height b \<and> b_height b \<le> start) (block_table conn)"

text \<open>Lines 106 to 132: the transaction row goes back to its unconfirmed form.\<close>

definition revert_confirmation :: "confirmed_transaction \<Rightarrow> db \<Rightarrow> error + db" where
  "revert_confirmation ct conn =
     (let tid = transaction_id_of (ct_transaction ct)
      in case ct of
           Accepted _ \<Rightarrow>
             Inr (conn\<lparr>transaction_table :=
               map (\<lambda>row. if tx_transaction_id row = tid
                           then row\<lparr>tx_confimed_transaction_id := None\<rparr> else row)
                 (transaction_table conn)\<rparr>)
         | _ \<Rightarrow>
             (case find (\<lambda>row. tx_transaction_id row = tid) (transaction_table conn) of
                None \<Rightarrow> Inl (RuntimeError (''missing transaction: '' @ tid))
              | Some res \<Rightarrow>
                  (case tx_original_transaction_id res of
                     None \<Rightarrow> Inr conn
                   | Some original_transaction_id \<Rightarrow>
                       (let original_type =
                              (case ct of RejectedDeploy _ _ \<Rightarrow> ''Deploy'' | _ \<Rightarrow> ''Execute'')
                        in Inr (conn\<lparr>transaction_table :=
                             map (\<lambda>row. if tx_transaction_id row = tid
                                         then row\<lparr>tx_transaction_id := original_transaction_id,
                                                  tx_original_transaction_id := None,
                                                  tx_confimed_transaction_id := None,
                                                  tx_type := original_type\<rparr>
                                         else row)
                               (transaction_table conn)\<rparr>)))))"

text \<open>Lines 134 to 159, the list \<^verbatim>\<open>transitions\<close> of a confirmed transaction.\<close>

definition reversal_transitions :: "confirmed_transaction \<Rightarrow> error + transition list" where
  "reversal_transitions ct =
     (case ct_transaction ct of
        ExecuteTransaction _ execution additional_fee \<Rightarrow>
          Inr (transitions execution @
               (case additional_fee of None \<Rightarrow> [] | Some f \<Rightarrow> [fee_transition f]))
      | DeployTransaction _ _ f \<Rightarrow> Inr [fee_transition f]
      | FeeTransaction _ f \<Rightarrow>
          (case ct of
             RejectedDeploy _ _ \<Rightarrow> Inr [fee_transition f]
           | RejectedExecute _ rejected \<Rightarrow>
               (case rejected of
                  RejectedExecution execution \<Rightarrow>
                    Inr (transitions execution @ [fee_transition f])
                | _ \<Rightarrow> Inl (RuntimeError ''wrong transaction data''))
           | Accepted _ \<Rightarrow> Inl (RuntimeError ''wrong transaction type'')))"

text \<open>Lines 140 to 148: a Deploy transaction removes its program and the program's mappings.\<close>

definition delete_deployed :: "transaction \<Rightarrow> db \<Rightarrow> db" where
  "delete_deployed t conn =
     (case t of
        DeployTransaction _ d _ \<Rightarrow>
          conn\<lparr>program := filter (\<lambda>p. p_program_id p \<noteq> program_id_of d) (program conn),
               mapping := filter (\<lambda>m. m_program_id m \<noteq> program_id_of d) (mapping conn)\<rparr>
      | _ \<Rightarrow> conn)"

text \<open>
  Lines 161 to 166: \<^verbatim>\<open>UPDATE program_function pf SET called = called - 1 FROM program p
  WHERE p.program_id = %s AND p.id = pf.program_id AND pf.name = %s\<close>.
\<close>

definition decrease_called :: "transition \<Rightarrow> db \<Rightarrow> db" where
  "decrease_called ts conn =
     conn\<lparr>program_function :=
       map (\<lambda>pf. if (\<exists>p \<in> set (program conn).
                       p_program_id p = ts_program_id ts \<and> p_id p = pf_program_id pf)
                    \<and> pf_name pf = ts_function_name ts
                 then pf\<lparr>pf_called := pf_called pf - 1\<rparr> else pf)
         (program_function conn)\<rparr>"

text \<open>The body of the loop over \<^verbatim>\<open>block.transactions\<close>.\<close>

definition revert_transaction :: "confirmed_transaction \<Rightarrow> db \<Rightarrow> error + db" where
  "revert_transaction ct conn =
     (case revert_confirmation ct conn of
        Inl e \<Rightarrow> Inl e
      | Inr conn1 \<Rightarrow>
          (case reversal_transitions ct of
             Inl e \<Rightarrow> Inl e
           | Inr ts \<Rightarrow> Inr (fold decrease_called ts (delete_deployed (ct_transaction ct) conn1))))"

fun revert_transactions :: "confirmed_transaction list \<Rightarrow> db \<Rightarrow> error + db" where
  "revert_transactions [] conn = Inr conn"
| "revert_transactions (ct # cts) conn =
     (case revert_transaction ct conn of
        Inl e \<Rightarrow> Inl e
      | Inr conn1 \<Rightarrow> revert_transactions cts conn1)"

text \<open>Lines 168 to 181: the rewards of the block's solutions leave the leaderboard.\<close>

definition select_rewards :: "int \<Rightarrow> db \<Rightarrow> (string \<times> int) list" where
  "select_rewards height conn =
     [(ps_address ps, ps_reward ps).
        ps \<leftarrow> prover_solution conn, cs \<leftarrow> coinbase_solution conn,
        ps_coinbase_solution_id ps = cs_id cs,
        b \<leftarrow> block_table conn, b_id b = cs_block_id cs, b_height b = height]"

definition decrease_reward :: "string \<times> int \<Rightarrow> db \<Rightarrow> db" where
  "decrease_reward item conn =
     (case item of
        (address, reward) \<Rightarrow>
          conn\<lparr>leaderboard :=
            map (\<lambda>row. if lb_address row = address
                        then row\<lparr>lb_total_reward := lb_total_reward row - reward\<rparr> else row)
              (leaderboard conn)\<rparr>)"

definition revert_leaderboard :: "int \<Rightarrow> db \<Rightarrow> db" where
  "revert_leaderboard height conn = fold decrease_reward (select_rewards height conn) conn"

fun revert_blocks :: "block list \<Rightarrow> db \<Rightarrow> error + db" where
  "revert_blocks [] conn = Inr conn"
| "revert_blocks (b # bs) conn =
     (case revert_transactions (b_transactions b) conn of
        Inl e \<Rightarrow> Inl e
      | Inr conn1 \<Rightarrow> revert_blocks bs (revert_leaderboard (b_height b) conn1))"

text \<open>Lines 182 to 189.\<close>

definition delete_above :: "int \<Rightarrow> db \<Rightarrow> db" where
  "delete_above last_backup_height conn =
     conn\<lparr>block_table := filter (\<lambda>b. \<not> b_height b > last_backup_height) (block_table conn),
          committee_history :=
            filter (\<lambda>c. \<not> ch_height c > last_backup_height) (committee_history conn)\<rparr>"

text \<open>Lines 74 to 189: every statement sent to the relational store, in order.\<close>

definition revert_relational :: "env \<Rightarrow> int \<Rightarrow> db \<Rightarrow> error + db" where
  "revert_relational env last_backup_height conn =
     (let conn1 = rebuild_mapping_value env last_backup_height conn;
          blocks_to_revert = get_full_block_range u32_max last_backup_height conn1
      in case revert_blocks blocks_to_revert conn1 of
           Inl e \<Rightarrow> Inl e
         | Inr conn2 \<Rightarrow> Inr (delete_above last_backup_height conn2))"


section \<open>What the blocks above the checkpoint hold\<close>

text \<open>
  The terms in which the specification speaks of the reverted blocks: the confirmed
  transactions of the blocks above the checkpoint in the order of the revert, the
  programs they deploy, and the transitions to reverse.
\<close>

definition reverted_transactions :: "int \<Rightarrow> db \<Rightarrow> confirmed_transaction list" where
  "reverted_transactions height conn =
     concat (map b_transactions (get_full_block_range u32_max height conn))"



definition transitions_of :: "confirmed_transaction \<Rightarrow> transition list" where
  "transitions_of ct = (case reversal_transitions ct of Inr ts \<Rightarrow> ts | Inl e \<Rightarrow> [])"

definition reverted_transitions :: "int \<Rightarrow> db \<Rightarrow> transition list" where
  "reverted_transitions height conn = concat (map transitions_of (reverted_transactions height conn))"

text \<open>
  A transition references a program function when it has the function's name and the
  id of the program that the function's row points to.
\<close>

definition references :: "program_row list \<Rightarrow> program_function_row \<Rightarrow> transition \<Rightarrow> bool" where
  "references programs pf t =
     (pf_name pf = ts_function_name t
      \<and> (\<exists>p \<in> set programs. p_id p = pf_program_id pf \<and> p_program_id p = ts_program_id t))"

section \<open>The statements sent to the relational store\<close>

text \<open>
  Each \<^verbatim>\<open>cur.execute\<close> of lines 74 to 189, with its parameters, and the query made by
  \<^verbatim>\<open>get_full_block_range\<close> (line 101). The functions below list the statements of a
  run in the order in which they are sent; where the run raises, the list ends with the
  last statement sent before.
\<close>

datatype statement =
  SelectMappingSnapshot int
  | TruncateMappingValue
  | InsertMappingValue int string string string string
  | DeleteMappingHistory int
  | SelectFullBlockRange int int
  | SelectOriginalTransactionId string
  | UpdateTransactionOriginal string string string
  | UpdateTransactionUnconfirmed string
  | DeleteProgram string
  | DeleteMapping string
  | UpdateProgramFunctionCalled string string
  | SelectRewards int
  | UpdateLeaderboard int string
  | DeleteBlock int
  | DeleteCommitteeHistory int

definition rebuild_statements :: "env \<Rightarrow> int \<Rightarrow> db \<Rightarrow> statement list" where
  "rebuild_statements env last_backup_height conn =
     [SelectMappingSnapshot last_backup_height, TruncateMappingValue]
     @ concat (map (\<lambda>item. case item of
                       (mapping_id, key_id, key, value) \<Rightarrow>
                         (case value of
                            None \<Rightarrow> []
                          | Some v \<Rightarrow>
                              [InsertMappingValue mapping_id key_id (get_value_id env key_id v) key v]))
                 (select_mapping_snapshot last_backup_height conn))
     @ [DeleteMappingHistory last_backup_height]"

definition confirmation_statements :: "confirmed_transaction \<Rightarrow> db \<Rightarrow> statement list" where
  "confirmation_statements ct conn =
     (let tid = transaction_id_of (ct_transaction ct)
      in case ct of
           Accepted _ \<Rightarrow> [UpdateTransactionUnconfirmed tid]
         | _ \<Rightarrow>
             SelectOriginalTransactionId tid #
             (case find (\<lambda>row. tx_transaction_id row = tid) (transaction_table conn) of
                None \<Rightarrow> []
              | Some res \<Rightarrow>
                  (case tx_original_transaction_id res of
                     None \<Rightarrow> []
                   | Some original_transaction_id \<Rightarrow>
                       [UpdateTransactionOriginal original_transaction_id
                          (case ct of RejectedDeploy _ _ \<Rightarrow> ''Deploy'' | _ \<Rightarrow> ''Execute'') tid])))"

definition transaction_statements :: "confirmed_transaction \<Rightarrow> db \<Rightarrow> statement list" where
  "transaction_statements ct conn =
     confirmation_statements ct conn @
     (case revert_confirmation ct conn of
        Inl e \<Rightarrow> []
      | Inr conn1 \<Rightarrow>
          (case ct_transaction ct of
             DeployTransaction _ d _ \<Rightarrow>
               [DeleteProgram (program_id_of d), DeleteMapping (program_id_of d)]
           | _ \<Rightarrow> []) @
          (case reversal_transitions ct of
             Inl e \<Rightarrow> []
           | Inr ts \<Rightarrow>
               map (\<lambda>t. UpdateProgramFunctionCalled (ts_program_id t) (ts_function_name t)) ts))"

fun transactions_statements :: "confirmed_transaction list \<Rightarrow> db \<Rightarrow> statement list" where
  "transactions_statements [] conn = []"
| "transactions_statements (ct # cts) conn =
     transaction_statements ct conn @
     (case revert_transaction ct conn of
        Inl e \<Rightarrow> []
      | Inr conn1 \<Rightarrow> transactions_statements cts conn1)"

definition leaderboard_statements :: "int \<Rightarrow> db \<Rightarrow> statement list" where
  "leaderboard_statements height conn =
     SelectRewards height #
     map (\<lambda>item. case item of (address, reward) \<Rightarrow> UpdateLeaderboard reward address)
       (select_rewards height conn)"

fun blocks_statements :: "block list \<Rightarrow> db \<Rightarrow> statement list" where
  "blocks_statements [] conn = []"
| "blocks_statements (b # bs) conn =
     transactions_statements (b_transactions b) conn @
     (case revert_transactions (b_transactions b) conn of
        Inl e \<Rightarrow> []
      | Inr conn1 \<Rightarrow>
          leaderboard_statements (b_height b) conn1 @
          blocks_statements bs (revert_leaderboard (b_height b) conn1))"

definition relational_statements :: "env \<Rightarrow> int \<Rightarrow> db \<Rightarrow> statement list" where
  "relational_statements env last_backup_height conn =
     (let conn1 = rebuild_mapping_value env last_backup_height conn;
          blocks_to_revert = get_full_block_range u32_max last_backup_height conn1
      in rebuild_statements env last_backup_height conn
         @ [SelectFullBlockRange u32_max last_backup_height]
         @ blocks_statements blocks_to_revert conn1
         @ (case revert_blocks blocks_to_revert conn1 of
              Inl e \<Rightarrow> []
            | Inr conn2 \<Rightarrow>
                [DeleteBlock last_backup_height, DeleteCommitteeHistory last_backup_height]))"

section \<open>Restoring the cache\<close>

datatype how = SIG_BLOCK | SIG_UNBLOCK

datatype signal = SIGINT | SIGTERM

text \<open>
  What the run does to its surroundings, in order: changes of the signal mask, the
  relational transaction's begin, commit and rollback, every statement sent to the
  relational store, every command that changes the cache store, the error message handed
  to \<^verbatim>\<open>message_callback\<close>, and the \<^verbatim>\<open>raise\<close> that ends the handler.
\<close>

datatype event =
  Sigmask how "signal set"
  | TxBegin
  | TxCommit
  | TxRollback
  | Execute statement
  | RedisCopy string string
  | RedisPersist string
  | RedisDelete string
  | DatabaseError error
  | Raise error

text \<open>
  The restore keeps the cache store, the commands done so far, the number of calls made
  to the cache client and, once a call has failed, what it raised. A call that fails
  changes nothing; after a failure nothing more is called.
\<close>

record restore_state =
  store :: redis
  performed :: "event list"
  calls :: nat
  raised :: "error option"

definition cache_call :: "env \<Rightarrow> (redis \<Rightarrow> redis) \<Rightarrow> event list \<Rightarrow> restore_state \<Rightarrow> restore_state" where
  "cache_call env command evs st =
     (case raised st of
        Some x \<Rightarrow> st
      | None \<Rightarrow>
          (case fault env (CacheCall (calls st)) of
             Some x \<Rightarrow> st\<lparr>raised := Some x\<rparr>
           | None \<Rightarrow>
               st\<lparr>store := command (store st), performed := performed st @ evs, calls := calls st + 1\<rparr>))"

text \<open>
  Lines 192 to 198, the body of the loop for one \<^verbatim>\<open>redis_key\<close>: copy, persist, the scan
  for rollback backups (a call that changes nothing) and one delete for each key found.
\<close>

definition restore_family :: "env \<Rightarrow> int \<Rightarrow> string \<Rightarrow> restore_state \<Rightarrow> restore_state" where
  "restore_family env last_backup_height redis_key st =
     (let backup_key = history_key env redis_key last_backup_height;
          st1 = cache_call env (redis_copy backup_key redis_key)
                  [RedisCopy backup_key redis_key] st;
          st2 = cache_call env (redis_persist redis_key) [RedisPersist redis_key] st1;
          keys = snd (redis_scan 0 (redis_key @ '':rollback_backup:*'') 100 (store st2));
          st3 = cache_call env id [] st2
      in fold (\<lambda>key. cache_call env (redis_delete key) [RedisDelete key]) keys st3)"

definition restore_cache :: "env \<Rightarrow> int \<Rightarrow> redis \<Rightarrow> restore_state" where
  "restore_cache env last_backup_height r =
     fold (restore_family env last_backup_height) redis_keys
       \<lparr>store = r, performed = [], calls = 0, raised = None\<rparr>"

text \<open>The commands that change the cache store.\<close>

fun cache_event :: "event \<Rightarrow> bool" where
  "cache_event (RedisCopy _ _) = True"
| "cache_event (RedisPersist _) = True"
| "cache_event (RedisDelete _) = True"
| "cache_event _ = False"

text \<open>
  The order the specification asks for: no command changes the cache store before the
  relational transaction has committed.
\<close>

fun committed_before_restore :: "event list \<Rightarrow> bool" where
  "committed_before_restore [] = True"
| "committed_before_restore (e # es) =
     (e = TxCommit \<or> (\<not> cache_event e \<and> committed_before_restore es))"

section \<open>The revert\<close>

record world =
  database :: db
  redis_store :: redis
  sigmask :: "signal set"
  events :: "event list"

definition pthread_sigmask :: "how \<Rightarrow> signal set \<Rightarrow> world \<Rightarrow> world" where
  "pthread_sigmask h sigs w =
     w\<lparr>sigmask := (case h of SIG_BLOCK \<Rightarrow> sigmask w \<union> sigs | SIG_UNBLOCK \<Rightarrow> sigmask w - sigs),
       events := events w @ [Sigmask h sigs]\<rparr>"

definition log_event :: "event \<Rightarrow> world \<Rightarrow> world" where
  "log_event e w = w\<lparr>events := events w @ [e]\<rparr>"

text \<open>
  The body of the \<^verbatim>\<open>try\<close>, lines 53 to 198, on the connection's view of the relational
  store and on the cache store: the locator, the statements sent to the relational store,
  the cache restore. The result is what the body raises or the connection's view at its
  end; the cache store and the events are returned in both cases, since what was done to
  the cache store before a failure stays done.
\<close>

definition try_body :: "env \<Rightarrow> db \<Rightarrow> redis \<Rightarrow> (error + db) \<times> redis \<times> event list" where
  "try_body env conn r =
     (case fault env LocatorRead of
        Some x \<Rightarrow> (Inl x, r, [])
      | None \<Rightarrow>
          (case find_last_backup env r of
             Inl e \<Rightarrow> (Inl e, r, [])
           | Inr last_backup_height \<Rightarrow>
               (let statements = relational_statements env last_backup_height conn
                in case first_fault (\<lambda>n. fault env (Statement n)) (length statements) of
                     Some (n, x) \<Rightarrow> (Inl x, r, map Execute (take n statements))
                   | None \<Rightarrow>
                       (case revert_relational env last_backup_height conn of
                          Inl e \<Rightarrow> (Inl e, r, map Execute statements)
                        | Inr conn1 \<Rightarrow>
                            (let st = restore_cache env last_backup_height r
                             in (case raised st of Some x \<Rightarrow> Inl x | None \<Rightarrow> Inr conn1,
                                 store st, map Execute statements @ performed st))))))"

text \<open>
  \<^verbatim>\<open>revert_to_last_backup\<close>. The signal is blocked (line 48); the connection, the
  transaction and the cursor are entered (lines 49 to 51); the body runs.

  When the body ends, leaving the \<^verbatim>\<open>async with conn.transaction()\<close> block commits what
  the connection did, and the signal is unblocked (line 204). A commit that fails raises
  out of the block of line 50, past line 204, and the relational store keeps its state of
  before the revert.

  When the body raises an \<^verbatim>\<open>Exception\<close>, the handler hands the error to
  \<^verbatim>\<open>message_callback\<close>, unblocks the signal and raises again (lines 200 to 203); the
  exception then leaves the transaction block, which rolls back. If
  \<^verbatim>\<open>message_callback\<close> raises, lines 202 and 203 are not reached. What the body raises
  that is no \<^verbatim>\<open>Exception\<close> passes the handler.

  A failure to enter the connection, the transaction or the cursor is raised outside the
  \<^verbatim>\<open>try\<close>.

  The cache store is outside the relational transaction: a rollback leaves it as the
  body left it.
\<close>

definition revert_to_last_backup :: "env \<Rightarrow> world \<Rightarrow> (error + unit) \<times> world" where
  "revert_to_last_backup env w =
     (let w1 = pthread_sigmask SIG_BLOCK {SIGINT} w
      in case fault env PoolConnection of
           Some x \<Rightarrow> (Inl x, w1)
         | None \<Rightarrow>
        (case fault env ConnTransaction of
           Some x \<Rightarrow> (Inl x, w1)
         | None \<Rightarrow>
        (let w2 = log_event TxBegin w1
         in case fault env ConnCursor of
              Some x \<Rightarrow> (Inl x, log_event TxRollback w2)
            | None \<Rightarrow>
           (case try_body env (database w2) (redis_store w2) of
              (result, r, evs) \<Rightarrow>
                (let w3 = w2\<lparr>redis_store := r, events := events w2 @ evs\<rparr>
                 in case result of
                      Inr conn \<Rightarrow>
                        (case fault env Commit of
                           Some x \<Rightarrow> (Inl x, log_event TxRollback w3)
                         | None \<Rightarrow>
                             (let w4 = log_event TxCommit (w3\<lparr>database := conn\<rparr>)
                              in (Inr (), pthread_sigmask SIG_UNBLOCK {SIGINT} w4)))
                    | Inl e \<Rightarrow>
                        if is_exception e then
                          (let w4 = log_event (DatabaseError e) w3
                           in case fault env MessageCallback of
                                Some x \<Rightarrow> (Inl x, log_event TxRollback w4)
                              | None \<Rightarrow>
                                  (let w5 = pthread_sigmask SIG_UNBLOCK {SIGINT} w4;
                                       w6 = log_event (Raise e) w5
                                   in (Inl e, log_event TxRollback w6)))
                        else (Inl e, log_event TxRollback w3))))))"

section \<open>A concrete ledger\<close>

text \<open>
  Decimal numerals stand in for \<^verbatim>\<open>int\<close> and \<^verbatim>\<open>str\<close>, and no call fails. The ledger
  below has blocks at heights 90, 95 and 96, complete snapshots at heights 80 and 90, and
  two rollback backups.
\<close>

definition digit_value :: "char \<Rightarrow> int option" where
  "digit_value c =
     (let n = of_char c :: nat in if 48 \<le> n \<and> n \<le> 57 then Some (int n - 48) else None)"

fun decimal_value :: "string \<Rightarrow> int \<Rightarrow> int option" where
  "decimal_value [] acc = Some acc"
| "decimal_value (c # cs) acc =
     (case digit_value c of None \<Rightarrow> None | Some d \<Rightarrow> decimal_value cs (10 * acc + d))"

definition int_of_decimal :: "string \<Rightarrow> int option" where
  "int_of_decimal s = (if s = [] then None else decimal_value s 0)"

function decimal_of_nat :: "nat \<Rightarrow> string" where
  "decimal_of_nat n =
     (if n < 10 then [char_of (48 + n)]
      else decimal_of_nat (n div 10) @ [char_of (48 + n mod 10)])"
  by pat_completeness auto
termination
  by (relation "measure id") auto

definition decimal_of_int :: "int \<Rightarrow> string" where
  "decimal_of_int i =
     (if i < 0 then CHR ''-'' # decimal_of_nat (nat (- i)) else decimal_of_nat (nat i))"

definition example_env :: env where
  "example_env =
     \<lparr>py_int = int_of_decimal, py_str = decimal_of_int,
      get_value_id = (\<lambda>key_id v. key_id @ ''/'' @ v),
      fault = (\<lambda>s. None)\<rparr>"

text \<open>The same collaborators with one call that fails.\<close>

definition failing_at :: "site \<Rightarrow> error \<Rightarrow> env" where
  "failing_at s x = example_env\<lparr>fault := (\<lambda>s'. if s' = s then Some x else None)\<rparr>"

definition commit_fails :: env where
  "commit_fails = failing_at Commit (ConnectionError ''server closed the connection'')"

definition example_redis :: redis where
  "example_redis =
     concat (map (\<lambda>k. [(k, \<lparr>val = ''live'', ttl = Some 60\<rparr>),
                        (k @ '':history:80'', \<lparr>val = ''at 80'', ttl = None\<rparr>),
                        (k @ '':history:90'', \<lparr>val = ''at 90'', ttl = None\<rparr>)]) redis_keys)
     @ [(''credits.aleo:bonded:rollback_backup:95'', \<lparr>val = ''safety'', ttl = None\<rparr>),
        (''address_fee:rollback_backup:96'', \<lparr>val = ''safety'', ttl = None\<rparr>)]"

definition fee_public :: fee where
  "fee_public = Fee \<lparr>ts_program_id = ''credits.aleo'', ts_function_name = ''fee_public''\<rparr>"

definition transfer_public :: transition where
  "transfer_public = \<lparr>ts_program_id = ''credits.aleo'', ts_function_name = ''transfer_public''\<rparr>"

definition example_blocks :: "block list" where
  "example_blocks =
     [\<lparr>b_id = 1, b_height = 90, b_transactions =
         [Accepted (ExecuteTransaction ''at1old'' (Execution [transfer_public]) None)]\<rparr>,
      \<lparr>b_id = 2, b_height = 95, b_transactions =
         [Accepted (ExecuteTransaction ''at1exec'' (Execution [transfer_public]) (Some fee_public)),
          RejectedDeploy (FeeTransaction ''at1fee2'' fee_public)
            (RejectedDeployment (Deployment ''q.aleo'')),
          Accepted (DeployTransaction ''at1dep'' (Deployment ''p.aleo'') fee_public),
          Accepted (ExecuteTransaction ''at1exec2''
            (Execution [\<lparr>ts_program_id = ''p.aleo'', ts_function_name = ''f''\<rparr>]) None)]\<rparr>,
      \<lparr>b_id = 3, b_height = 96, b_transactions =
         [RejectedExecute (FeeTransaction ''at1fee3'' fee_public)
            (RejectedExecution (Execution [transfer_public]))]\<rparr>]"

definition example_db :: db where
  "example_db =
     \<lparr>mapping_history =
        [\<lparr>mh_id = 1, mh_mapping_id = 1, mh_key_id = ''k1'', mh_key = ''key1'',
          mh_value = Some ''v1'', mh_height = 80\<rparr>,
         \<lparr>mh_id = 2, mh_mapping_id = 1, mh_key_id = ''k1'', mh_key = ''key1'',
          mh_value = Some ''v2'', mh_height = 90\<rparr>,
         \<lparr>mh_id = 3, mh_mapping_id = 1, mh_key_id = ''k1'', mh_key = ''key1'',
          mh_value = Some ''v3'', mh_height = 95\<rparr>,
         \<lparr>mh_id = 4, mh_mapping_id = 1, mh_key_id = ''k2'', mh_key = ''key2'',
          mh_value = Some ''w1'', mh_height = 85\<rparr>,
         \<lparr>mh_id = 5, mh_mapping_id = 1, mh_key_id = ''k2'', mh_key = ''key2'',
          mh_value = None, mh_height = 90\<rparr>,
         \<lparr>mh_id = 6, mh_mapping_id = 2, mh_key_id = ''k1'', mh_key = ''key1'',
          mh_value = Some ''x1'', mh_height = 96\<rparr>],
      mapping_value =
        [\<lparr>mv_mapping_id = 1, mv_key_id = ''k1'', mv_value_id = ''k1/v3'', mv_key = ''key1'',
          mv_value = ''v3''\<rparr>,
         \<lparr>mv_mapping_id = 2, mv_key_id = ''k1'', mv_value_id = ''k1/x1'', mv_key = ''key1'',
          mv_value = ''x1''\<rparr>],
      transaction_table =
        [\<lparr>tx_transaction_id = ''at1old'', tx_original_transaction_id = None,
          tx_confimed_transaction_id = Some 10, tx_type = ''Execute''\<rparr>,
         \<lparr>tx_transaction_id = ''at1exec'', tx_original_transaction_id = None,
          tx_confimed_transaction_id = Some 11, tx_type = ''Execute''\<rparr>,
         \<lparr>tx_transaction_id = ''at1fee2'', tx_original_transaction_id = Some ''tx-orig-1'',
          tx_confimed_transaction_id = Some 12, tx_type = ''Fee''\<rparr>,
         \<lparr>tx_transaction_id = ''at1dep'', tx_original_transaction_id = None,
          tx_confimed_transaction_id = Some 13, tx_type = ''Deploy''\<rparr>,
         \<lparr>tx_transaction_id = ''at1fee3'', tx_original_transaction_id = None,
          tx_confimed_transaction_id = Some 14, tx_type = ''Fee''\<rparr>,
         \<lparr>tx_transaction_id = ''at1exec2'', tx_original_transaction_id = None,
          tx_confimed_transaction_id = Some 15, tx_type = ''Execute''\<rparr>],
      program =
        [\<lparr>p_id = 1, p_program_id = ''credits.aleo''\<rparr>, \<lparr>p_id = 2, p_program_id = ''p.aleo''\<rparr>],
      program_function =
        [\<lparr>pf_program_id = 1, pf_name = ''fee_public'', pf_called = 10\<rparr>,
         \<lparr>pf_program_id = 1, pf_name = ''transfer_public'', pf_called = 7\<rparr>,
         \<lparr>pf_program_id = 2, pf_name = ''f'', pf_called = 5\<rparr>],
      mapping =
        [\<lparr>m_id = 1, m_program_id = ''credits.aleo''\<rparr>, \<lparr>m_id = 2, m_program_id = ''p.aleo''\<rparr>],
      leaderboard = [\<lparr>lb_address = ''aleo1p'', lb_total_reward = 100\<rparr>],
      prover_solution =
        [\<lparr>ps_coinbase_solution_id = 1, ps_address = ''aleo1p'', ps_reward = 30\<rparr>],
      coinbase_solution = [\<lparr>cs_id = 1, cs_block_id = 2\<rparr>],
      block_table = example_blocks,
      committee_history = [\<lparr>ch_height = 90\<rparr>, \<lparr>ch_height = 95\<rparr>]\<rparr>"

text \<open>The same store with one family's snapshot at height 90 missing.\<close>

definition incomplete_redis :: redis where
  "incomplete_redis = filter (\<lambda>(k, e). k \<noteq> ''address_fee:history:90'') example_redis"


definition example_struct :: "(string \<times> string plaintext) list" where
  "example_struct =
     [(''owner'', LiteralPlaintext (Literal Address ''aleo1a'')),
      (''amount'', LiteralPlaintext (Literal U64 ''5u64'')),
      (''inner'', StructPlaintext
         [(''to'', LiteralPlaintext (Literal Address ''aleo1b'')),
          (''again'', LiteralPlaintext (Literal Address ''aleo1a''))]),
      (''list'', ArrayPlaintext [LiteralPlaintext (Literal Address ''aleo1c'')])]"

definition example_world :: world where
  "example_world =
     \<lparr>database = example_db, redis_store = example_redis, sigmask = {}, events = []\<rparr>"


section \<open>Addresses of a struct\<close>

lemma address_member_Nil: "address_member str [] a = False"
  by (auto elim: address_member.cases)

lemma address_member_Cons:
  "address_member str ((n, p) # ms) a \<longleftrightarrow>
     (case p of
        LiteralPlaintext l \<Rightarrow> type l = Address \<and> a = str (primitive l)
      | StructPlaintext ms' \<Rightarrow> address_member str ms' a
      | ArrayPlaintext _ \<Rightarrow> False) \<or> address_member str ms a"
proof
  assume "address_member str ((n, p) # ms) a"
  then show "(case p of
        LiteralPlaintext l \<Rightarrow> type l = Address \<and> a = str (primitive l)
      | StructPlaintext ms' \<Rightarrow> address_member str ms' a
      | ArrayPlaintext _ \<Rightarrow> False) \<or> address_member str ms a"
    by (cases rule: address_member.cases) (auto intro: address_member.intros)
next
  assume r: "(case p of
        LiteralPlaintext l \<Rightarrow> type l = Address \<and> a = str (primitive l)
      | StructPlaintext ms' \<Rightarrow> address_member str ms' a
      | ArrayPlaintext _ \<Rightarrow> False) \<or> address_member str ms a"
  have weaken: "address_member str ms a \<Longrightarrow> address_member str ((n, q) # ms) a" for q
    by (erule address_member.cases) (auto intro: address_member.intros)
  from r show "address_member str ((n, p) # ms) a"
    by (cases p) (auto intro: address_member.intros weaken)
qed

lemma collect_addresses_eq:
  "collect_addresses str ms acc = acc \<union> {a. address_member str ms a}"
proof (induction str ms acc rule: collect_addresses.induct)
  case (1 str addresses)
  show ?case by (simp add: address_member_Nil)
next
  case (2 str n p ms addresses)
  show ?case
  proof (cases p)
    case (LiteralPlaintext l)
    with 2 show ?thesis by (auto simp: address_member_Cons)
  next
    case (StructPlaintext ms')
    with 2 show ?thesis by (auto simp: address_member_Cons)
  next
    case (ArrayPlaintext es)
    with 2 show ?thesis by (auto simp: address_member_Cons)
  qed
qed

text \<open>
  C10. The result of \<^verbatim>\<open>get_addresses_from_struct\<close> is exactly the set of renderings of
  the members that are literals of type Address, taken through nested structs; a literal
  of another type and a plaintext that is neither a literal nor a struct add nothing.
\<close>

theorem get_addresses_from_struct_exact:
  "get_addresses_from_struct str ms = {a. address_member str ms a}"
  by (simp add: get_addresses_from_struct_def collect_addresses_eq)

theorem get_addresses_from_struct_exact_witness:
  "{a. address_member id example_struct a} = {''aleo1a'', ''aleo1b''}"
  using get_addresses_from_struct_exact [of id example_struct]
  by (simp add: get_addresses_from_struct_def example_struct_def insert_commute)


section \<open>The ways out of the revert\<close>

lemma cache_call_events:
  "list_all cache_event evs \<Longrightarrow> list_all cache_event (performed st)
     \<Longrightarrow> list_all cache_event (performed (cache_call env command evs st))"
  by (simp add: cache_call_def split: option.splits)

lemma fold_delete_events:
  "list_all cache_event (performed st) \<Longrightarrow>
     list_all cache_event
       (performed (fold (\<lambda>key. cache_call env (redis_delete key) [RedisDelete key]) keys st))"
  by (induction keys arbitrary: st) (simp_all add: cache_call_events)

lemma restore_family_events:
  "list_all cache_event (performed st) \<Longrightarrow>
     list_all cache_event (performed (restore_family env h k st))"
  by (simp add: restore_family_def Let_def fold_delete_events cache_call_events)

lemma fold_restore_family_events:
  "list_all cache_event (performed st) \<Longrightarrow>
     list_all cache_event (performed (fold (restore_family env h) ks st))"
  by (induction ks arbitrary: st) (simp_all add: restore_family_events)

lemma restore_cache_events: "list_all cache_event (performed (restore_cache env h r))"
  by (simp add: restore_cache_def fold_restore_family_events)

lemma try_body_success:
  "try_body env conn r = (Inr conn1, r1, evs) \<longleftrightarrow>
     fault env LocatorRead = None
     \<and> (\<exists>h. find_last_backup env r = Inr h
           \<and> first_fault (\<lambda>n. fault env (Statement n))
               (length (relational_statements env h conn)) = None
           \<and> revert_relational env h conn = Inr conn1
           \<and> raised (restore_cache env h r) = None
           \<and> r1 = store (restore_cache env h r)
           \<and> evs = map Execute (relational_statements env h conn)
                   @ performed (restore_cache env h r))"
  by (auto simp: try_body_def Let_def split: option.splits sum.splits prod.splits)

lemma try_body_locator_failure:
  assumes "find_last_backup env r = Inl e"
  shows "\<exists>x. try_body env conn r = (Inl x, r, []) \<and> (fault env LocatorRead = None \<longrightarrow> x = e)"
  using assms by (auto simp: try_body_def split: option.splits)

lemma revert_success:
  "revert_to_last_backup env w = (Inr u, w') \<longleftrightarrow>
     fault env PoolConnection = None \<and> fault env ConnTransaction = None
     \<and> fault env ConnCursor = None \<and> fault env Commit = None
     \<and> (\<exists>conn1 r1 evs.
          try_body env (database w) (redis_store w) = (Inr conn1, r1, evs)
        \<and> w' = \<lparr>database = conn1, redis_store = r1, sigmask = sigmask w - {SIGINT},
                 events = events w @ [Sigmask SIG_BLOCK {SIGINT}, TxBegin] @ evs
                           @ [TxCommit, Sigmask SIG_UNBLOCK {SIGINT}]\<rparr>)"
  by (cases w; cases w')
    (auto simp: revert_to_last_backup_def pthread_sigmask_def log_event_def Let_def
      split: sum.splits prod.splits option.splits if_splits)

lemma revert_failure_database:
  "fst (revert_to_last_backup env w) = Inl x \<Longrightarrow>
     database (snd (revert_to_last_backup env w)) = database w"
  by (auto simp: revert_to_last_backup_def pthread_sigmask_def log_event_def Let_def
      split: sum.splits prod.splits option.splits if_splits)

lemma revert_body_failure:
  assumes "try_body env (database w) (redis_store w) = (Inl e, r, evs)"
  shows "\<exists>x. fst (revert_to_last_backup env w) = Inl x"
    and "redis_store (snd (revert_to_last_backup env w)) = r
         \<or> redis_store (snd (revert_to_last_backup env w)) = redis_store w"
  using assms
  by (auto simp: revert_to_last_backup_def pthread_sigmask_def log_event_def Let_def
      split: sum.splits prod.splits option.splits if_splits)

lemma revert_handled:
  assumes "try_body env (database w) (redis_store w) = (Inl e, r, evs)"
    and "is_exception e"
    and "fault env PoolConnection = None" and "fault env ConnTransaction = None"
    and "fault env ConnCursor = None" and "fault env MessageCallback = None"
  shows "revert_to_last_backup env w =
     (Inl e, w\<lparr>redis_store := r, sigmask := sigmask w - {SIGINT},
               events := events w @ [Sigmask SIG_BLOCK {SIGINT}, TxBegin] @ evs
                 @ [DatabaseError e, Sigmask SIG_UNBLOCK {SIGINT}, Raise e, TxRollback]\<rparr>)"
  using assms
  by (cases w)
    (auto simp: revert_to_last_backup_def pthread_sigmask_def log_event_def Let_def)

lemma find_last_backup_is_exception: "find_last_backup env r = Inl e \<Longrightarrow> is_exception e"
  by (auto simp: find_last_backup_def Let_def split: prod.splits if_splits option.splits)

section \<open>The guard and the order of commit and cache restore\<close>

lemma cache_call_nonempty:
  "performed st \<noteq> [] \<Longrightarrow> performed (cache_call env command evs st) \<noteq> []"
  by (simp add: cache_call_def split: option.splits)


lemma example_run: "fst (revert_to_last_backup example_env example_world) = Inr ()"
  by code_simp

lemma example_run_pair:
  "revert_to_last_backup example_env example_world
     = (Inr (), snd (revert_to_last_backup example_env example_world))"
  using example_run by (simp add: prod_eq_iff)

lemma sigint_blocked_after_iff:
  "SIGINT \<in> sigmask (snd (revert_to_last_backup env w)) \<longleftrightarrow>
     fault env PoolConnection \<noteq> None \<or> fault env ConnTransaction \<noteq> None
     \<or> fault env ConnCursor \<noteq> None
     \<or> (case try_body env (database w) (redis_store w) of
           (Inr conn, r, evs) \<Rightarrow> fault env Commit \<noteq> None
         | (Inl e, r, evs) \<Rightarrow> \<not> is_exception e \<or> fault env MessageCallback \<noteq> None)"
  by (auto simp: revert_to_last_backup_def pthread_sigmask_def log_event_def Let_def
      split: sum.splits prod.splits option.splits if_splits)

text \<open>
  C8. The revert blocks SIGINT first, and it unblocks SIGINT when the body ends and the
  commit succeeds, and when the body raises an \<^verbatim>\<open>Exception\<close> that
  \<^verbatim>\<open>message_callback\<close> accepts. The other ways out leave SIGINT blocked. On the
  concrete ledger: a commit that fails after a body that succeeded; a cancellation at a
  statement; \<^verbatim>\<open>message_callback\<close> raising on a checkpoint that is incomplete; a
  cursor that cannot be opened. In each run the first event blocks SIGINT, no event
  unblocks it, and SIGINT is in the mask at the end.
\<close>

theorem signal_left_blocked:
  "(let run = revert_to_last_backup
                (failing_at Commit (ConnectionError ''server closed the connection''))
                example_world
    in fst run = Inl (ConnectionError ''server closed the connection'')
       \<and> hd (events (snd run)) = Sigmask SIG_BLOCK {SIGINT}
       \<and> Sigmask SIG_UNBLOCK {SIGINT} \<notin> set (events (snd run))
       \<and> SIGINT \<in> sigmask (snd run))
   \<and> (let run = revert_to_last_backup (failing_at (Statement 7) CancelledError) example_world
       in fst run = Inl CancelledError
          \<and> hd (events (snd run)) = Sigmask SIG_BLOCK {SIGINT}
          \<and> Sigmask SIG_UNBLOCK {SIGINT} \<notin> set (events (snd run))
          \<and> SIGINT \<in> sigmask (snd run))
   \<and> (let run = revert_to_last_backup
                   (failing_at MessageCallback (ConnectionError ''callback failed''))
                   (example_world\<lparr>redis_store := incomplete_redis\<rparr>)
       in fst run = Inl (ConnectionError ''callback failed'')
          \<and> hd (events (snd run)) = Sigmask SIG_BLOCK {SIGINT}
          \<and> Sigmask SIG_UNBLOCK {SIGINT} \<notin> set (events (snd run))
          \<and> SIGINT \<in> sigmask (snd run))
   \<and> (let run = revert_to_last_backup
                   (failing_at ConnCursor (ConnectionError ''no cursor'')) example_world
       in fst run = Inl (ConnectionError ''no cursor'')
          \<and> hd (events (snd run)) = Sigmask SIG_BLOCK {SIGINT}
          \<and> Sigmask SIG_UNBLOCK {SIGINT} \<notin> set (events (snd run))
          \<and> SIGINT \<in> sigmask (snd run))"
  by code_simp

text \<open>
  C1, as amended. In a run that succeeds the cache restore lies inside the relational
  transaction: after the begin come the statements of the mapping rebuild and of the
  ledger rollback, then the commands that restore the cache, and only then the commit.
  The restore is not atomic with the transaction: when the run fails after the
  transaction was entered, by the body or by the commit, the relational store is as it
  was before the revert and the cache store is as the body left it; after a commit that
  fails that is the restored cache.
\<close>

theorem cache_restore_inside_transaction:
  "(\<forall>u w'. revert_to_last_backup env w = (Inr u, w') \<longrightarrow>
      (\<exists>h. find_last_backup env (redis_store w) = Inr h
         \<and> revert_relational env h (database w) = Inr (database w')
         \<and> redis_store w' = store (restore_cache env h (redis_store w))
         \<and> events w' =
             events w @ [Sigmask SIG_BLOCK {SIGINT}, TxBegin]
               @ map Execute (relational_statements env h (database w))
               @ performed (restore_cache env h (redis_store w))
               @ [TxCommit, Sigmask SIG_UNBLOCK {SIGINT}]
         \<and> relational_statements env h (database w) \<noteq> []
         \<and> list_all cache_event (performed (restore_cache env h (redis_store w)))
         \<and> performed (restore_cache env h (redis_store w)) \<noteq> []))
   \<and> (\<forall>x. fault env PoolConnection = None \<and> fault env ConnTransaction = None
          \<and> fault env ConnCursor = None \<and> fst (revert_to_last_backup env w) = Inl x \<longrightarrow>
          database (snd (revert_to_last_backup env w)) = database w
          \<and> redis_store (snd (revert_to_last_backup env w))
              = fst (snd (try_body env (database w) (redis_store w))))
   \<and> (\<forall>x conn1 r1 evs. fault env PoolConnection = None \<and> fault env ConnTransaction = None
          \<and> fault env ConnCursor = None
          \<and> try_body env (database w) (redis_store w) = (Inr conn1, r1, evs)
          \<and> fault env Commit = Some x \<longrightarrow>
          fst (revert_to_last_backup env w) = Inl x
          \<and> (\<exists>h. find_last_backup env (redis_store w) = Inr h
                \<and> r1 = store (restore_cache env h (redis_store w)))
          \<and> events (snd (revert_to_last_backup env w)) =
               events w @ [Sigmask SIG_BLOCK {SIGINT}, TxBegin] @ evs @ [TxRollback])"
proof (intro conjI allI impI)
  fix u w'
  assume run: "revert_to_last_backup env w = (Inr u, w')"
  then obtain conn1 r1 evs where
    body: "try_body env (database w) (redis_store w) = (Inr conn1, r1, evs)"
    and w': "w' = \<lparr>database = conn1, redis_store = r1, sigmask = sigmask w - {SIGINT},
                 events = events w @ [Sigmask SIG_BLOCK {SIGINT}, TxBegin] @ evs
                           @ [TxCommit, Sigmask SIG_UNBLOCK {SIGINT}]\<rparr>"
    unfolding revert_success by blast
  from body obtain h where
    h: "find_last_backup env (redis_store w) = Inr h"
    and rel: "revert_relational env h (database w) = Inr conn1"
    and ok: "raised (restore_cache env h (redis_store w)) = None"
    and r1: "r1 = store (restore_cache env h (redis_store w))"
    and evs: "evs = map Execute (relational_statements env h (database w))
                   @ performed (restore_cache env h (redis_store w))"
    unfolding try_body_success by blast
  have stmts: "relational_statements env h (database w) \<noteq> []"
    by (simp add: relational_statements_def rebuild_statements_def Let_def)
  have "performed (fold (restore_family env h) (ks @ [k]) st) \<noteq> []"
    if "raised (fold (restore_family env h) (ks @ [k]) st) = None" for ks k st
  proof -
    define st0 where "st0 = fold (restore_family env h) ks st"
    have last_step: "fold (restore_family env h) (ks @ [k]) st = restore_family env h k st0"
      by (simp add: st0_def)
    define st1 where "st1 = cache_call env
        (redis_copy (history_key env k h) k) [RedisCopy (history_key env k h) k] st0"
    have raised_keep: "raised (cache_call env c es s) = None \<Longrightarrow> raised s = None" for c es s
      by (auto simp: cache_call_def split: option.splits)
    have raised_fold: "raised (fold (\<lambda>key. cache_call env (redis_delete key) [RedisDelete key]) keys s) = None
        \<Longrightarrow> raised s = None" for keys s
      by (induction keys arbitrary: s) (auto dest: raised_keep)
    have nonempty_fold: "performed s \<noteq> [] \<Longrightarrow>
        performed (fold (\<lambda>key. cache_call env (redis_delete key) [RedisDelete key]) keys s) \<noteq> []"
      for keys s
      by (induction keys arbitrary: s) (simp_all add: cache_call_nonempty)
    from that last_step have "raised (restore_family env h k st0) = None" by simp
    then have "raised st1 = None"
      unfolding restore_family_def Let_def st1_def
      by (auto dest!: raised_fold raised_keep)
    then have "performed st1 \<noteq> []"
      unfolding st1_def by (auto simp: cache_call_def split: option.splits)
    then have "performed (restore_family env h k st0) \<noteq> []"
      unfolding restore_family_def Let_def st1_def [symmetric]
      by (intro nonempty_fold cache_call_nonempty)
    with last_step show ?thesis by simp
  qed
  from this [of "butlast redis_keys" "last redis_keys"
      "\<lparr>store = redis_store w, performed = [], calls = 0, raised = None\<rparr>"] ok
  have ne: "performed (restore_cache env h (redis_store w)) \<noteq> []"
    by (simp add: restore_cache_def redis_keys_def)
  from h rel r1 evs w' stmts ne restore_cache_events [of env h "redis_store w"]
  show "\<exists>h. find_last_backup env (redis_store w) = Inr h
         \<and> revert_relational env h (database w) = Inr (database w')
         \<and> redis_store w' = store (restore_cache env h (redis_store w))
         \<and> events w' =
             events w @ [Sigmask SIG_BLOCK {SIGINT}, TxBegin]
               @ map Execute (relational_statements env h (database w))
               @ performed (restore_cache env h (redis_store w))
               @ [TxCommit, Sigmask SIG_UNBLOCK {SIGINT}]
         \<and> relational_statements env h (database w) \<noteq> []
         \<and> list_all cache_event (performed (restore_cache env h (redis_store w)))
         \<and> performed (restore_cache env h (redis_store w)) \<noteq> []"
    by auto
next
  fix x
  assume a: "fault env PoolConnection = None \<and> fault env ConnTransaction = None
          \<and> fault env ConnCursor = None \<and> fst (revert_to_last_backup env w) = Inl x"
  then show "database (snd (revert_to_last_backup env w)) = database w"
    by (simp add: revert_failure_database)
  from a show "redis_store (snd (revert_to_last_backup env w))
              = fst (snd (try_body env (database w) (redis_store w)))"
    by (auto simp: revert_to_last_backup_def pthread_sigmask_def log_event_def Let_def
        split: sum.splits prod.splits option.splits if_splits)
next
  fix x conn1 r1 evs
  assume a: "fault env PoolConnection = None \<and> fault env ConnTransaction = None
          \<and> fault env ConnCursor = None
          \<and> try_body env (database w) (redis_store w) = (Inr conn1, r1, evs)
          \<and> fault env Commit = Some x"
  then show "fst (revert_to_last_backup env w) = Inl x"
    by (simp add: revert_to_last_backup_def pthread_sigmask_def log_event_def Let_def)
  from a show "\<exists>h. find_last_backup env (redis_store w) = Inr h
                \<and> r1 = store (restore_cache env h (redis_store w))"
    unfolding try_body_success by blast
  from a show "events (snd (revert_to_last_backup env w)) =
               events w @ [Sigmask SIG_BLOCK {SIGINT}, TxBegin] @ evs @ [TxRollback]"
    by (simp add: revert_to_last_backup_def pthread_sigmask_def log_event_def Let_def)
qed

lemma commit_fails_body:
  "(case fst (try_body commit_fails (database example_world) (redis_store example_world)) of
      Inr conn \<Rightarrow> True | Inl e \<Rightarrow> False)"
  by code_simp

lemma commit_fails_height:
  "find_last_backup commit_fails (redis_store example_world) = Inr 90"
  by code_simp

lemma commit_fails_changes_cache:
  "store (restore_cache commit_fails 90 (redis_store example_world)) \<noteq> redis_store example_world"
  by code_simp

theorem cache_restore_inside_transaction_witness:
  "(\<exists>h. find_last_backup example_env (redis_store example_world) = Inr h
      \<and> revert_relational example_env h (database example_world)
          = Inr (database (snd (revert_to_last_backup example_env example_world)))
      \<and> redis_store (snd (revert_to_last_backup example_env example_world))
          = store (restore_cache example_env h (redis_store example_world))
      \<and> events (snd (revert_to_last_backup example_env example_world)) =
          events example_world @ [Sigmask SIG_BLOCK {SIGINT}, TxBegin]
            @ map Execute (relational_statements example_env h (database example_world))
            @ performed (restore_cache example_env h (redis_store example_world))
            @ [TxCommit, Sigmask SIG_UNBLOCK {SIGINT}]
      \<and> relational_statements example_env h (database example_world) \<noteq> []
      \<and> list_all cache_event (performed (restore_cache example_env h (redis_store example_world)))
      \<and> performed (restore_cache example_env h (redis_store example_world)) \<noteq> [])
   \<and> fst (revert_to_last_backup commit_fails example_world)
       = Inl (ConnectionError ''server closed the connection'')
   \<and> database (snd (revert_to_last_backup commit_fails example_world)) = database example_world
   \<and> redis_store (snd (revert_to_last_backup commit_fails example_world))
       = store (restore_cache commit_fails 90 (redis_store example_world))
   \<and> redis_store (snd (revert_to_last_backup commit_fails example_world))
       \<noteq> redis_store example_world"
proof -
  note thm1 = cache_restore_inside_transaction [of example_env example_world]
  note thm2 = cache_restore_inside_transaction [of commit_fails example_world]
  have entries: "fault commit_fails PoolConnection = None"
    "fault commit_fails ConnTransaction = None" "fault commit_fails ConnCursor = None"
    "fault commit_fails Commit = Some (ConnectionError ''server closed the connection'')"
    by (simp_all add: commit_fails_def failing_at_def)
  obtain res r1 evs where
    body: "try_body commit_fails (database example_world) (redis_store example_world)
             = (res, r1, evs)"
    by (cases "try_body commit_fails (database example_world) (redis_store example_world)")
  with commit_fails_body obtain conn1 where res: "res = Inr conn1"
    by (cases res) simp_all
  from thm1 example_run_pair have one:
    "\<exists>h. find_last_backup example_env (redis_store example_world) = Inr h
      \<and> revert_relational example_env h (database example_world)
          = Inr (database (snd (revert_to_last_backup example_env example_world)))
      \<and> redis_store (snd (revert_to_last_backup example_env example_world))
          = store (restore_cache example_env h (redis_store example_world))
      \<and> events (snd (revert_to_last_backup example_env example_world)) =
          events example_world @ [Sigmask SIG_BLOCK {SIGINT}, TxBegin]
            @ map Execute (relational_statements example_env h (database example_world))
            @ performed (restore_cache example_env h (redis_store example_world))
            @ [TxCommit, Sigmask SIG_UNBLOCK {SIGINT}]
      \<and> relational_statements example_env h (database example_world) \<noteq> []
      \<and> list_all cache_event (performed (restore_cache example_env h (redis_store example_world)))
      \<and> performed (restore_cache example_env h (redis_store example_world)) \<noteq> []"
    by blast
  from thm2 entries body res have failed:
    "fst (revert_to_last_backup commit_fails example_world)
       = Inl (ConnectionError ''server closed the connection'')"
    and r1: "\<exists>h. find_last_backup commit_fails (redis_store example_world) = Inr h
                \<and> r1 = store (restore_cache commit_fails h (redis_store example_world))"
    by blast+
  from thm2 entries failed have kept:
    "database (snd (revert_to_last_backup commit_fails example_world)) = database example_world"
    and cache: "redis_store (snd (revert_to_last_backup commit_fails example_world))
       = fst (snd (try_body commit_fails (database example_world) (redis_store example_world)))"
    by blast+
  from r1 commit_fails_height
  have "r1 = store (restore_cache commit_fails 90 (redis_store example_world))" by simp
  with cache body have restored:
    "redis_store (snd (revert_to_last_backup commit_fails example_world))
       = store (restore_cache commit_fails 90 (redis_store example_world))"
    by simp
  with commit_fails_changes_cache
  have "redis_store (snd (revert_to_last_backup commit_fails example_world))
       \<noteq> redis_store example_world" by simp
  with one failed kept restored show ?thesis by blast
qed

text \<open>
  C1 as stated fails: on the concrete ledger the run succeeds and the cache store is
  changed before the commit.
\<close>

theorem cache_restore_after_commit_counterexample:
  "fst (revert_to_last_backup example_env example_world) = Inr ()
   \<and> \<not> committed_before_restore (events (snd (revert_to_last_backup example_env example_world)))"
  by code_simp

text \<open>
  C6. For a Fee transaction the transitions to reverse are the fee transition alone under
  RejectedDeploy, and the transitions of the rejected execution followed by the fee
  transition under RejectedExecute; a rejection that is no execution fails with
  InvalidRejectedPayload, and a Fee transaction that is not wrapped in a rejection fails
  with InvalidTransactionShape.
\<close>

theorem fee_reversal_transitions:
  "reversal_transitions (RejectedDeploy (FeeTransaction tid f) rej) = Inr [fee_transition f]
   \<and> reversal_transitions (RejectedExecute (FeeTransaction tid f) (RejectedExecution ex))
       = Inr (transitions ex @ [fee_transition f])
   \<and> reversal_transitions (RejectedExecute (FeeTransaction tid f) (RejectedDeployment d))
       = Inl InvalidRejectedPayload
   \<and> reversal_transitions (Accepted (FeeTransaction tid f)) = Inl InvalidTransactionShape
   \<and> revert_transaction (Accepted (FeeTransaction tid f)) conn = Inl InvalidTransactionShape
   \<and> revert_transaction (RejectedExecute (FeeTransaction tid f) (RejectedDeployment d)) conn
       = (if find (\<lambda>row. tx_transaction_id row = tid) (transaction_table conn) = None
          then Inl (MissingTransactionRecord tid) else Inl InvalidRejectedPayload)"
  by (auto simp: reversal_transitions_def revert_transaction_def revert_confirmation_def
      InvalidRejectedPayload_def InvalidTransactionShape_def MissingTransactionRecord_def Let_def
      split: option.splits)

section \<open>The locator\<close>

lemma glob_star: "glob ''*'' s"
  by (induction s) simp_all

lemma glob_prefix:
  "CHR ''*'' \<notin> set pre \<Longrightarrow> CHR ''?'' \<notin> set pre \<Longrightarrow> glob (pre @ ''*'') s = prefix pre s"
proof (induction pre arbitrary: s)
  case Nil
  then show ?case using glob_star by simp
next
  case (Cons p pre)
  then show ?case by (cases s) auto
qed

lemma redis_keys_plain: "k \<in> set redis_keys \<Longrightarrow> CHR ''*'' \<notin> set k \<and> CHR ''?'' \<notin> set k"
  by (auto simp: redis_keys_def)

lemma glob_family:
  assumes "k \<in> set redis_keys" and "CHR ''*'' \<notin> set tail" and "CHR ''?'' \<notin> set tail"
  shows "glob (k @ tail @ ''*'') s = prefix (k @ tail) s"
  using glob_prefix [of "k @ tail" s] redis_keys_plain [OF assms(1)] assms(2,3) by simp

lemma redis_scan_complete:
  assumes "redis_scan 0 pattern count r = (cursor, keys)" and "cursor = 0" and "0 < count"
  shows "keys = filter (glob pattern) (map fst r)"
  using assms by (auto simp: redis_scan_def Let_def split: if_splits)

lemma sorted_last_Max:
  fixes xs :: "'a::linorder list"
  assumes "sorted xs" and "xs \<noteq> []"
  shows "last xs = Max (set xs)"
proof -
  have "\<forall>y \<in> set xs. y \<le> last xs"
    using assms by (induction xs) (auto split: if_splits)
  moreover have "last xs \<in> set xs" using assms(2) by simp
  ultimately show ?thesis by (intro Max_eqI [symmetric]) auto
qed

lemma last_sort_key_Max:
  fixes f :: "'a \<Rightarrow> 'b::linorder"
  assumes "xs \<noteq> []"
  shows "f (last (sort_key f xs)) = Max (f ` set xs)"
proof -
  have ne: "sort_key f xs \<noteq> []"
    using assms by (metis length_sort length_0_conv)
  have "last (map f (sort_key f xs)) = Max (set (map f (sort_key f xs)))"
    using ne by (intro sorted_last_Max) simp_all
  then show ?thesis using ne by (simp add: last_map)
qed


lemma find_None_iff_all: "find P xs = None \<longleftrightarrow> (\<forall>x \<in> set xs. \<not> P x)"
  by (induction xs) auto

lemma find_Some_mem: "find P xs = Some x \<Longrightarrow> x \<in> set xs \<and> P x"
  by (auto simp: find_Some_iff)

lemma find_last_backup_height:
  assumes scan: "redis_scan 0 (hd redis_keys @ '':history:*'') 100 r = (0, keys)"
    and ne: "keys \<noteq> []"
    and parse: "\<forall>k \<in> set keys. py_int env (last_segment k) \<noteq> None"
    and height: "height = Max ((\<lambda>k. the (py_int env (last_segment k))) ` set keys)"
  shows "find_last_backup env r =
     (case find (\<lambda>redis_key. \<not> redis_exists (history_key env redis_key height) r) redis_keys of
        Some redis_key \<Rightarrow> Inl (IncompleteCheckpoint (history_key env redis_key height))
      | None \<Rightarrow> Inr height)"
proof -
  from parse have "find (\<lambda>x. py_int env (last_segment x) = None) keys = None"
    by (simp add: find_None_iff_all)
  moreover have "the (py_int env (last_segment
      (last (sort_key (\<lambda>x. the (py_int env (last_segment x))) keys)))) = height"
    using last_sort_key_Max [OF ne, of "\<lambda>x. the (py_int env (last_segment x))"] height by simp
  ultimately show ?thesis using scan ne
    by (simp add: find_last_backup_def Let_def IncompleteCheckpoint_def cong: option.case_cong)
qed

text \<open>
  C4. The locator scans the snapshot keys of the first family. A reply with a cursor other
  than 0 fails with UnsupportedCatalog; a complete reply lists every snapshot key of that
  family in the store, and an empty one fails with NoCheckpointFound. Otherwise, the
  keys being snapshot identifiers (each ends in a height), the greatest height is chosen,
  and a family without a snapshot at that height fails with IncompleteCheckpoint naming
  the missing key. Whenever the locator fails, the revert fails and neither the
  relational store nor the cache store has changed; when no call to the outside fails on
  the way, the revert fails with the locator's error, which it reports before it unblocks
  SIGINT and raises again.
\<close>

theorem checkpoint_locator:
  assumes scan: "redis_scan 0 (hd redis_keys @ '':history:*'') 100 (redis_store w) = (cursor, keys)"
  shows "(cursor = 0 \<longrightarrow>
            set keys = {k \<in> fst ` set (redis_store w). prefix (hd redis_keys @ '':history:'') k})
       \<and> (cursor \<noteq> 0 \<longrightarrow> find_last_backup env (redis_store w) = Inl UnsupportedCatalog)
       \<and> (cursor = 0 \<and> keys = [] \<longrightarrow>
            find_last_backup env (redis_store w) = Inl NoCheckpointFound)
       \<and> (cursor = 0 \<and> keys \<noteq> [] \<and> (\<forall>k \<in> set keys. py_int env (last_segment k) \<noteq> None) \<longrightarrow>
            (let height = Max ((\<lambda>k. the (py_int env (last_segment k))) ` set keys)
             in if \<forall>redis_key \<in> set redis_keys.
                     redis_exists (history_key env redis_key height) (redis_store w)
                then find_last_backup env (redis_store w) = Inr height
                else \<exists>redis_key \<in> set redis_keys.
                       \<not> redis_exists (history_key env redis_key height) (redis_store w)
                       \<and> find_last_backup env (redis_store w)
                           = Inl (IncompleteCheckpoint (history_key env redis_key height))))
       \<and> (\<forall>e. find_last_backup env (redis_store w) = Inl e \<longrightarrow>
            (\<exists>x. fst (revert_to_last_backup env w) = Inl x)
            \<and> database (snd (revert_to_last_backup env w)) = database w
            \<and> redis_store (snd (revert_to_last_backup env w)) = redis_store w
            \<and> (fault env PoolConnection = None \<and> fault env ConnTransaction = None
                \<and> fault env ConnCursor = None \<and> fault env LocatorRead = None
                \<and> fault env MessageCallback = None \<longrightarrow>
                fst (revert_to_last_backup env w) = Inl e
                \<and> events (snd (revert_to_last_backup env w)) =
                    events w @ [Sigmask SIG_BLOCK {SIGINT}, TxBegin, DatabaseError e,
                                Sigmask SIG_UNBLOCK {SIGINT}, Raise e, TxRollback]))"
proof (intro conjI impI allI)
  assume "cursor = 0"
  with scan have "keys = filter (glob (hd redis_keys @ '':history:*'')) (map fst (redis_store w))"
    by (intro redis_scan_complete [of _ 100 _ cursor]) simp_all
  moreover have "glob (hd redis_keys @ '':history:*'') s = prefix (hd redis_keys @ '':history:'') s" for s
    using glob_family [of "hd redis_keys" "'':history:''" s] by (simp add: redis_keys_def)
  ultimately show "set keys = {k \<in> fst ` set (redis_store w). prefix (hd redis_keys @ '':history:'') k}"
    by auto
next
  assume "cursor \<noteq> 0"
  with scan show "find_last_backup env (redis_store w) = Inl UnsupportedCatalog"
    by (simp add: find_last_backup_def UnsupportedCatalog_def)
next
  assume "cursor = 0 \<and> keys = []"
  with scan show "find_last_backup env (redis_store w) = Inl NoCheckpointFound"
    by (simp add: find_last_backup_def NoCheckpointFound_def)
next
  assume a: "cursor = 0 \<and> keys \<noteq> [] \<and> (\<forall>k \<in> set keys. py_int env (last_segment k) \<noteq> None)"
  define height where "height = Max ((\<lambda>k. the (py_int env (last_segment k))) ` set keys)"
  define missing where
    "missing = find (\<lambda>redis_key. \<not> redis_exists (history_key env redis_key height) (redis_store w)) redis_keys"
  from a scan have res: "find_last_backup env (redis_store w) =
       (case missing of
          Some redis_key \<Rightarrow> Inl (IncompleteCheckpoint (history_key env redis_key height))
        | None \<Rightarrow> Inr height)"
    using find_last_backup_height [of "redis_store w" keys env height]
    by (simp add: height_def missing_def)
  have "if \<forall>redis_key \<in> set redis_keys. redis_exists (history_key env redis_key height) (redis_store w)
        then find_last_backup env (redis_store w) = Inr height
        else \<exists>redis_key \<in> set redis_keys.
               \<not> redis_exists (history_key env redis_key height) (redis_store w)
               \<and> find_last_backup env (redis_store w)
                   = Inl (IncompleteCheckpoint (history_key env redis_key height))"
  proof (cases missing)
    case None
    then have "\<forall>redis_key \<in> set redis_keys. redis_exists (history_key env redis_key height) (redis_store w)"
      by (simp add: missing_def find_None_iff_all)
    with None res show ?thesis by simp
  next
    case (Some k)
    then have "k \<in> set redis_keys \<and> \<not> redis_exists (history_key env k height) (redis_store w)"
      unfolding missing_def by (rule find_Some_mem)
    with Some res show ?thesis by auto
  qed
  then show "let height = Max ((\<lambda>k. the (py_int env (last_segment k))) ` set keys)
             in if \<forall>redis_key \<in> set redis_keys.
                     redis_exists (history_key env redis_key height) (redis_store w)
                then find_last_backup env (redis_store w) = Inr height
                else \<exists>redis_key \<in> set redis_keys.
                       \<not> redis_exists (history_key env redis_key height) (redis_store w)
                       \<and> find_last_backup env (redis_store w)
                           = Inl (IncompleteCheckpoint (history_key env redis_key height))"
    unfolding height_def Let_def .
next
  fix e
  assume fail: "find_last_backup env (redis_store w) = Inl e"
  from try_body_locator_failure [OF fail, of "database w"] obtain x where
    body: "try_body env (database w) (redis_store w) = (Inl x, redis_store w, [])"
    and x: "fault env LocatorRead = None \<longrightarrow> x = e"
    by auto
  from revert_body_failure(1) [OF body]
  show failed: "\<exists>x. fst (revert_to_last_backup env w) = Inl x" .
  then show "database (snd (revert_to_last_backup env w)) = database w"
    by (auto simp: revert_failure_database)
  from revert_body_failure(2) [OF body]
  show "redis_store (snd (revert_to_last_backup env w)) = redis_store w" by blast
  assume sound: "fault env PoolConnection = None \<and> fault env ConnTransaction = None
                \<and> fault env ConnCursor = None \<and> fault env LocatorRead = None
                \<and> fault env MessageCallback = None"
  with x body have body': "try_body env (database w) (redis_store w) = (Inl e, redis_store w, [])"
    by simp
  from fail have "is_exception e" by (rule find_last_backup_is_exception)
  with revert_handled [OF body'] sound
  have run: "revert_to_last_backup env w =
     (Inl e, w\<lparr>redis_store := redis_store w, sigmask := sigmask w - {SIGINT},
               events := events w @ [Sigmask SIG_BLOCK {SIGINT}, TxBegin] @ []
                 @ [DatabaseError e, Sigmask SIG_UNBLOCK {SIGINT}, Raise e, TxRollback]\<rparr>)"
    by simp
  then show "fst (revert_to_last_backup env w) = Inl e" by simp
  from run show "events (snd (revert_to_last_backup env w)) =
      events w @ [Sigmask SIG_BLOCK {SIGINT}, TxBegin, DatabaseError e,
                  Sigmask SIG_UNBLOCK {SIGINT}, Raise e, TxRollback]" by simp
qed

lemma example_scan:
  "redis_scan 0 (hd redis_keys @ '':history:*'') 100 (redis_store example_world)
     = (0, [''credits.aleo:bonded:history:80'', ''credits.aleo:bonded:history:90''])"
  by code_simp

lemma incomplete_scan:
  "redis_scan 0 (hd redis_keys @ '':history:*'') 100
       (redis_store (example_world\<lparr>redis_store := incomplete_redis\<rparr>))
     = (0, [''credits.aleo:bonded:history:80'', ''credits.aleo:bonded:history:90''])"
  by code_simp

lemma example_heights:
  "py_int example_env (last_segment ''credits.aleo:bonded:history:80'') = Some 80"
  "py_int example_env (last_segment ''credits.aleo:bonded:history:90'') = Some 90"
  by code_simp+

lemma example_complete:
  "\<forall>redis_key \<in> set redis_keys. redis_exists (history_key example_env redis_key 90) example_redis"
  by code_simp

lemma incomplete_missing:
  "find (\<lambda>redis_key. \<not> redis_exists (history_key example_env redis_key 90) incomplete_redis) redis_keys
     = Some ''address_fee''"
  by code_simp

theorem checkpoint_locator_witness:
  "find_last_backup example_env (redis_store example_world) = Inr 90
   \<and> (\<exists>redis_key \<in> set redis_keys.
         \<not> redis_exists (history_key example_env redis_key 90) incomplete_redis
         \<and> find_last_backup example_env incomplete_redis
             = Inl (IncompleteCheckpoint (history_key example_env redis_key 90)))
   \<and> database (snd (revert_to_last_backup example_env (example_world\<lparr>redis_store := incomplete_redis\<rparr>)))
       = database example_world"
proof -
  let ?w = "example_world\<lparr>redis_store := incomplete_redis\<rparr>"
  have store: "redis_store example_world = example_redis" "redis_store ?w = incomplete_redis"
    "database ?w = database example_world"
    by (simp_all add: example_world_def)
  have incomplete: "\<not> (\<forall>redis_key \<in> set redis_keys.
      redis_exists (history_key example_env redis_key 90) incomplete_redis)"
    using incomplete_missing by (auto dest: find_Some_mem)
  from checkpoint_locator [OF example_scan, of example_env] example_complete
  have one: "find_last_backup example_env (redis_store example_world) = Inr 90"
    by (simp add: example_heights store)
  from checkpoint_locator [OF incomplete_scan, of example_env] incomplete
  have two: "\<exists>redis_key \<in> set redis_keys.
         \<not> redis_exists (history_key example_env redis_key 90) incomplete_redis
         \<and> find_last_backup example_env incomplete_redis
             = Inl (IncompleteCheckpoint (history_key example_env redis_key 90))"
    by (simp add: example_heights store)
  then obtain e where "find_last_backup example_env (redis_store ?w) = Inl e"
    by (auto simp: store)
  with checkpoint_locator [OF incomplete_scan, of example_env]
  have three: "database (snd (revert_to_last_backup example_env ?w)) = database example_world"
    by (simp add: store)
  from one two three show ?thesis by blast
qed

section \<open>Rejected transactions\<close>







section \<open>Rollback backups and snapshots in the cache restore\<close>








lemma keys_redis_persist: "fst ` set (redis_persist key r) = fst ` set r"
  unfolding redis_persist_def by (induction r) (auto split: if_splits)















section \<open>What each step of the rollback leaves alone\<close>





















section \<open>Deployed programs\<close>







section \<open>The rebuilt mapping values\<close>










section \<open>The called counters\<close>

lemma references_called [simp]:
  "references programs (pf\<lparr>pf_called := n\<rparr>) = references programs pf"
  by (auto simp: references_def fun_eq_iff)









lemma example_transitions:
  "reverted_transitions 90 example_db
     = [transfer_public, fee_transition fee_public, fee_transition fee_public,
        fee_transition fee_public, \<lparr>ts_program_id = ''p.aleo'', ts_function_name = ''f''\<rparr>,
        transfer_public, fee_transition fee_public]"
  by code_simp




end
